theory Spec2Isabelle
  imports Complex_Main
begin

section \<open>Data model\<close>

text \<open>
  The Go package \<open>satellite\<close> computes with \<open>float64\<close>. Here a \<open>float64\<close> is an exact
  real number: rounding, signed zeros, infinities and NaN are not represented. An
  \<open>int64\<close> is an \<open>int\<close>; the only arithmetic on it are the century offsets of
  \<open>NewSatFromTLE\<close> and the remainder \<open>year % 4\<close>. A Go \<open>error\<close> is represented by its
  message, and a function returning \<open>(value, error)\<close> returns a pair whose second
  component is \<open>None\<close> for \<open>nil\<close>: Go hands back the value it has built so far together
  with the error, and so does the model.
\<close>

type_synonym error = string

record GravConst =
  mu :: real
  radiusearthkm :: real
  xke :: real
  tumin :: real
  j2 :: real
  j3 :: real
  j4 :: real
  j3oj2 :: real
  f :: real

text \<open>The zero value of the struct, which a named result holds until it is assigned.\<close>

definition zero_GravConst :: GravConst where
  "zero_GravConst =
     \<lparr>mu = 0, radiusearthkm = 0, xke = 0, tumin = 0, j2 = 0, j3 = 0, j4 = 0, j3oj2 = 0, f = 0\<rparr>"

section \<open>Gravity model constants\<close>

text \<open>
  \<open>getGravConst\<close> assigns the fields of the named result \<open>grav\<close> one after the other, so
  a later assignment reads the fields assigned before it.
\<close>

definition getGravConst :: "string \<Rightarrow> GravConst \<times> error option" where
  "getGravConst name =
     (let grav = zero_GravConst in
      if name = ''wgs72old'' then
        (let grav = grav\<lparr>mu := 398600.79964\<rparr>;
             grav = grav\<lparr>radiusearthkm := 6378.135\<rparr>;
             grav = grav\<lparr>xke := 0.0743669161\<rparr>;
             grav = grav\<lparr>tumin := 1.0 / xke grav\<rparr>;
             grav = grav\<lparr>j2 := 0.001082616\<rparr>;
             grav = grav\<lparr>j3 := - 0.00000253881\<rparr>;
             grav = grav\<lparr>j4 := - 0.00000165597\<rparr>;
             grav = grav\<lparr>j3oj2 := j3 grav / j2 grav\<rparr>;
             grav = grav\<lparr>f := 1 / 298.26\<rparr>
         in (grav, None))
      else if name = ''wgs72'' then
        (let grav = grav\<lparr>mu := 398600.8\<rparr>;
             grav = grav\<lparr>radiusearthkm := 6378.135\<rparr>;
             grav = grav\<lparr>xke := 60.0 / sqrt (radiusearthkm grav * radiusearthkm grav
                                            * radiusearthkm grav / mu grav)\<rparr>;
             grav = grav\<lparr>tumin := 1.0 / xke grav\<rparr>;
             grav = grav\<lparr>j2 := 0.001082616\<rparr>;
             grav = grav\<lparr>j3 := - 0.00000253881\<rparr>;
             grav = grav\<lparr>j4 := - 0.00000165597\<rparr>;
             grav = grav\<lparr>j3oj2 := j3 grav / j2 grav\<rparr>;
             grav = grav\<lparr>f := 1 / 298.26\<rparr>
         in (grav, None))
      else if name = ''wgs84'' then
        (let grav = grav\<lparr>mu := 398600.5\<rparr>;
             grav = grav\<lparr>radiusearthkm := 6378.137\<rparr>;
             grav = grav\<lparr>xke := 60.0 / sqrt (radiusearthkm grav * radiusearthkm grav
                                            * radiusearthkm grav / mu grav)\<rparr>;
             grav = grav\<lparr>tumin := 1.0 / xke grav\<rparr>;
             grav = grav\<lparr>j2 := 0.00108262998905\<rparr>;
             grav = grav\<lparr>j3 := - 0.00000253215306\<rparr>;
             grav = grav\<lparr>j4 := - 0.00000161098761\<rparr>;
             grav = grav\<lparr>j3oj2 := j3 grav / j2 grav\<rparr>;
             grav = grav\<lparr>f := 1 / 298.257223563\<rparr>
         in (grav, None))
      else (grav, Some (name @ '' is not a valid gravity model'')))"

section \<open>Numeric helpers of Go's \<open>math\<close> package\<close>

text \<open>
  \<open>trunc\<close> is Go's conversion \<open>int(x)\<close> of a \<open>float64\<close>: the fraction is discarded,
  towards zero. \<open>math_Mod x y\<close> is \<open>math.Mod\<close>, the remainder of the truncated quotient:
  it has the sign of \<open>x\<close> and a magnitude below \<open>\<bar>y\<bar>\<close>. \<open>math_Modf\<close> splits a number
  into its whole part and its fraction, both with the sign of the number.
\<close>

definition trunc :: "real \<Rightarrow> int" where
  "trunc x = (if 0 \<le> x then \<lfloor>x\<rfloor> else \<lceil>x\<rceil>)"

definition math_Floor :: "real \<Rightarrow> real" where
  "math_Floor x = of_int \<lfloor>x\<rfloor>"

definition math_Mod :: "real \<Rightarrow> real \<Rightarrow> real" where
  "math_Mod x y = x - y * of_int (trunc (x / y))"

definition math_Modf :: "real \<Rightarrow> real \<times> real" where
  "math_Modf x = (of_int (trunc x), x - of_int (trunc x))"

definition TWOPI :: real where
  "TWOPI = pi * 2.0"

definition DEG2RAD :: real where
  "DEG2RAD = pi / 180.0"

definition RAD2DEG :: real where
  "RAD2DEG = 180.0 / pi"

definition XPDOTP :: real where
  "XPDOTP = 1440.0 / (2.0 * pi)"

section \<open>Positions, angles and dates\<close>

record LatLong =
  Latitude :: real
  Longitude :: real

record LatLongAlt =
  LatLong :: LatLong
  AltitudeKm :: real

record Vector3 =
  X :: real
  Y :: real
  Z :: real

record LookAngles =
  Az :: real
  El :: real
  Rg :: real

record JDay =
  Day :: real
  Fraction :: real

definition Subtract :: "JDay \<Rightarrow> real \<Rightarrow> real" where
  "Subtract jd time = Day jd + Fraction jd - time"

definition NewJDay :: "int \<Rightarrow> int \<Rightarrow> int \<Rightarrow> int \<Rightarrow> int \<Rightarrow> real \<Rightarrow> JDay" where
  "NewJDay year mon day hr minute sec =
     (let jd = 367.0 * of_int year
               - math_Floor (7 * (of_int year + math_Floor ((of_int mon + 9) / 12.0)) * 0.25)
               + math_Floor (275 * of_int mon / 9.0) + of_int day + 1721013.5;
          fr = (sec + of_int minute * 60.0 + of_int hr * 3600.0) / 86400.0
      in \<lparr>Day = jd, Fraction = fr\<rparr>)"

section \<open>Day of the year to month, day, hour, minute and second\<close>

text \<open>
  Indexing the array \<open>lmonth\<close> outside \<open>0 .. 11\<close> is a run-time panic in Go. The loop
  condition of \<open>days2mdhms\<close> reads \<open>lmonth[int(i-1)]\<close> before it tests \<open>i < 22\<close>, and the
  model keeps that order: the bounds check comes first, then the comparison of the day
  count, then the cap.
\<close>

datatype panic = IndexOutOfRange int nat

function days2mdhms_loop :: "int list \<Rightarrow> real \<Rightarrow> real \<Rightarrow> real \<Rightarrow> panic + (real \<times> real)" where
  "days2mdhms_loop lmonth dayofyr i inttemp =
     (if trunc (i - 1) < 0 \<or> int (length lmonth) \<le> trunc (i - 1)
      then Inl (IndexOutOfRange (trunc (i - 1)) (length lmonth))
      else if dayofyr > inttemp + of_int (lmonth ! nat (trunc (i - 1))) \<and> i < 22
      then days2mdhms_loop lmonth dayofyr (i + 1)
             (inttemp + of_int (lmonth ! nat (trunc (i - 1))))
      else Inr (i, inttemp))"
  by pat_completeness auto
termination
proof (relation "measure (\<lambda>(lmonth, dayofyr, i, inttemp). nat \<lceil>22 - i\<rceil>)", goal_cases)
  case 1
  show ?case by simp
next
  case (2 lmonth dayofyr i inttemp)
  have "22 - i = (21 - i) + 1" by simp
  then have "\<lceil>22 - i\<rceil> = \<lceil>21 - i\<rceil> + 1"
    by (simp only: ceiling_add_one)
  moreover from 2 have "0 < \<lceil>22 - i\<rceil>" by simp
  ultimately show ?case by simp
qed

definition days2mdhms :: "int \<Rightarrow> real \<Rightarrow> panic + (real \<times> real \<times> real \<times> real \<times> real)" where
  "days2mdhms year epochDays =
     (let lmonth = (if year mod 4 = 0
                    then [31, 29, 31, 30, 31, 30, 31, 31, 30, 31, 30, 31]
                    else [31, 28, 31, 30, 31, 30, 31, 31, 30, 31, 30, 31]);
          dayofyr = math_Floor epochDays
      in case days2mdhms_loop lmonth dayofyr 1.0 0.0 of
           Inl p \<Rightarrow> Inl p
         | Inr (i, inttemp) \<Rightarrow>
             (let mon = i;
                  day = dayofyr - inttemp;
                  temp = (epochDays - dayofyr) * 24.0;
                  hr = math_Floor temp;
                  temp = (temp - hr) * 60.0;
                  minute = math_Floor temp;
                  sec = (temp - minute) * 60.0
              in Inr (mon, day, hr, minute, sec)))"

section \<open>Coordinate transforms\<close>

definition LatLongDeg :: "LatLong \<Rightarrow> LatLong \<times> error option" where
  "LatLongDeg rad =
     (let deg = \<lparr>Latitude = 0, Longitude = 0\<rparr>;
          deg = deg\<lparr>Longitude := math_Mod (Longitude rad / pi * 180) 360\<rparr>;
          deg = (if Longitude deg > 180 then deg\<lparr>Longitude := 360 - Longitude deg\<rparr>
                 else if Longitude deg < - 180 then deg\<lparr>Longitude := 360 + Longitude deg\<rparr>
                 else deg)
      in if Latitude rad < (- pi / 2) \<or> Latitude rad > pi / 2
         then (deg, Some ''Latitude not within bounds -pi/2 to +pi/2'')
         else (deg\<lparr>Latitude := Latitude rad / pi * 180\<rparr>, None))"

definition ThetaG_JD :: "real \<Rightarrow> real" where
  "ThetaG_JD jday =
     (let UT = snd (math_Modf (jday + 0.5));
          jday = jday - UT;
          TU = (jday - 2451545.0) / 36525.0;
          GMST = 24110.54841 + TU * (8640184.812866 + TU * (0.093104 - TU * 0.0000062));
          GMST = math_Mod (GMST + 86400.0 * 1.00273790934 * UT) 86400.0
      in 2 * pi * GMST / 86400.0)"

definition LLAToECI :: "LatLongAlt \<Rightarrow> real \<Rightarrow> GravConst \<Rightarrow> Vector3" where
  "LLAToECI obsCoords jday gravConst =
     (let theta = math_Mod (ThetaG_JD jday + Longitude (LatLong obsCoords)) TWOPI;
          latSin = sin (Latitude (LatLong obsCoords));
          latCos = cos (Latitude (LatLong obsCoords));
          c = 1 / sqrt (1 + f gravConst * (f gravConst - 2) * latSin * latSin);
          sq = c * (1 - f gravConst) * (1 - f gravConst);
          achcp = (radiusearthkm gravConst * c + AltitudeKm obsCoords) * latCos
      in \<lparr>X = achcp * cos theta,
          Y = achcp * sin theta,
          Z = (radiusearthkm gravConst * sq + AltitudeKm obsCoords) * latSin\<rparr>)"

definition ECIToECEF :: "Vector3 \<Rightarrow> real \<Rightarrow> Vector3" where
  "ECIToECEF eciCoords gmst =
     \<lparr>X = X eciCoords * cos gmst + Y eciCoords * sin gmst,
      Y = X eciCoords * - sin gmst + Y eciCoords * cos gmst,
      Z = Z eciCoords\<rparr>"

definition ECIToLookAngles :: "Vector3 \<Rightarrow> LatLongAlt \<Rightarrow> real \<Rightarrow> GravConst \<Rightarrow> LookAngles" where
  "ECIToLookAngles eciSat obsCoords jday gravConst =
     (let theta = math_Mod (ThetaG_JD jday + Longitude (LatLong obsCoords)) (2 * pi);
          obsPos = LLAToECI obsCoords jday gravConst;
          rx = X eciSat - X obsPos;
          ry = Y eciSat - Y obsPos;
          rz = Z eciSat - Z obsPos;
          latSin = sin (Latitude (LatLong obsCoords));
          latCos = cos (Latitude (LatLong obsCoords));
          thetaSin = sin theta;
          thetaCos = cos theta;
          topS = latSin * thetaCos * rx + latSin * thetaSin * ry - latCos * rz;
          topE = - thetaSin * rx + thetaCos * ry;
          topZ = latCos * thetaCos * rx + latCos * thetaSin * ry + latSin * rz;
          az = arctan (- topE / topS);
          az = (if topS > 0 then az + pi else az);
          az = (if az < 0 then az + 2 * pi else az);
          rg = sqrt (rx * rx + ry * ry + rz * rz)
      in \<lparr>Az = az, El = arcsin (topZ / rg), Rg = rg\<rparr>)"

section \<open>Strings\<close>

text \<open>
  A Go string is a sequence of bytes, here a \<open>char list\<close>. \<open>slice s i j\<close> is \<open>s[i:j]\<close>;
  \<open>ParseTLE\<close> slices only after it has checked that both lines hold 69 bytes, and every
  bound it uses is at most 63, so no slice of it can panic.

  \<open>Replace s old new n\<close> is \<open>strings.Replace\<close> for a non-empty \<open>old\<close> (the package calls
  it with \<open>" "\<close> only): the first \<open>n\<close> occurrences of \<open>old\<close>, from the left and without
  overlap, are replaced by \<open>new\<close>; a negative \<open>n\<close> puts no limit on the number of
  replacements. \<open>TrimSpace\<close> removes the leading and trailing ASCII white space
  (\<open>strings.TrimSpace\<close> also removes white space outside ASCII).
\<close>

definition slice :: "string \<Rightarrow> nat \<Rightarrow> nat \<Rightarrow> string" where
  "slice s i j = take (j - i) (drop i s)"

fun Replace :: "string \<Rightarrow> string \<Rightarrow> string \<Rightarrow> int \<Rightarrow> string" where
  "Replace [] old new n = []"
| "Replace (c # cs) old new n =
     (if old \<noteq> [] \<and> n \<noteq> 0 \<and> take (length old) (c # cs) = old
      then new @ Replace (drop (length old - 1) cs) old new (n - 1)
      else c # Replace cs old new n)"

definition isSpace :: "char \<Rightarrow> bool" where
  "isSpace c = (c = CHR 0x09 \<or> c = CHR 0x0A \<or> c = CHR 0x0B \<or> c = CHR 0x0C
                \<or> c = CHR 0x0D \<or> c = CHR '' '')"

definition TrimSpace :: "string \<Rightarrow> string" where
  "TrimSpace s = rev (dropWhile isSpace (rev (dropWhile isSpace s)))"

text \<open>The verb \<open>%d\<close> of \<open>fmt.Errorf\<close> on a length: its decimal digits.\<close>

fun show_nat :: "nat \<Rightarrow> string" where
  "show_nat n =
     (if n < 10 then [char_of (48 + n)]
      else show_nat (n div 10) @ [char_of (48 + n mod 10)])"

section \<open>The numeric parsers of \<open>strconv\<close>\<close>

text \<open>
  \<open>strconv.ParseInt\<close> and \<open>strconv.ParseFloat\<close> belong to Go's standard library, not to
  this package. The model takes them as a parameter: \<open>ParseInt lib s\<close> stands for
  \<open>strconv.ParseInt(s, 10, 0)\<close> and \<open>ParseFloat lib s\<close> for \<open>strconv.ParseFloat(s, 64)\<close>.
  Each returns the number together with the error, as in Go.
\<close>

record strconv =
  ParseInt :: "string \<Rightarrow> int \<times> error option"
  ParseFloat :: "string \<Rightarrow> real \<times> error option"

definition parseFloat :: "strconv \<Rightarrow> string \<Rightarrow> real \<times> error option" where
  "parseFloat lib strIn =
     (let strIn = Replace strIn '' '' ''0'' (- 1)
      in ParseFloat lib strIn)"

definition parseInt :: "strconv \<Rightarrow> string \<Rightarrow> int \<times> error option" where
  "parseInt lib strIn = ParseInt lib strIn"

text \<open>
  For results at concrete inputs the parameter is instantiated by \<open>go_strconv\<close>, which
  follows the documentation of \<open>strconv\<close> on decimal literals: an optional sign, digits
  with at most one decimal point and at least one digit, and for a float an optional
  exponent \<open>e\<close> or \<open>E\<close> with an optional sign and at least one digit. An integer outside
  the range of \<open>int64\<close> is reported as out of range with the nearest bound as its value.
  The other forms \<open>strconv.ParseFloat\<close> accepts (hexadecimal, \<open>Inf\<close>, \<open>NaN\<close>, underscores
  between digits) are treated as syntax errors, and the value of a float literal is
  the exact decimal number. \<open>quote\<close> is \<open>strconv.Quote\<close> on printable ASCII without
  quotes and backslashes.
\<close>

definition is_digit :: "char \<Rightarrow> bool" where
  "is_digit c = (48 \<le> (of_char c :: nat) \<and> (of_char c :: nat) \<le> 57)"

fun digits_value :: "nat \<Rightarrow> string \<Rightarrow> nat" where
  "digits_value acc [] = acc"
| "digits_value acc (c # cs) = digits_value (10 * acc + (of_char c - 48)) cs"

definition quote :: "string \<Rightarrow> string" where
  "quote s = [CHR 0x22] @ s @ [CHR 0x22]"

definition strip_sign :: "string \<Rightarrow> bool \<times> string" where
  "strip_sign s =
     (case s of
        [] \<Rightarrow> (False, [])
      | c # cs \<Rightarrow> if c = CHR ''+'' then (False, cs)
                 else if c = CHR ''-'' then (True, cs)
                 else (False, s))"

definition atoi :: "string \<Rightarrow> int \<times> error option" where
  "atoi s =
     (case strip_sign s of (neg, ds) \<Rightarrow>
        if ds = [] \<or> \<not> list_all is_digit ds
        then (0, Some (''strconv.ParseInt: parsing '' @ quote s @ '': invalid syntax''))
        else if \<not> neg \<and> 2 ^ 63 \<le> digits_value 0 ds
        then (2 ^ 63 - 1, Some (''strconv.ParseInt: parsing '' @ quote s @ '': value out of range''))
        else if neg \<and> 2 ^ 63 < digits_value 0 ds
        then (- (2 ^ 63), Some (''strconv.ParseInt: parsing '' @ quote s @ '': value out of range''))
        else (if neg then - int (digits_value 0 ds) else int (digits_value 0 ds), None))"

definition pow10 :: "int \<Rightarrow> real" where
  "pow10 k = (if 0 \<le> k then 10 ^ nat k else 1 / 10 ^ nat (- k))"

definition exponent :: "string \<Rightarrow> int option" where
  "exponent s =
     (case s of
        [] \<Rightarrow> Some 0
      | c # cs \<Rightarrow>
          if c = CHR ''e'' \<or> c = CHR ''E''
          then (case strip_sign cs of (neg, ds) \<Rightarrow>
                  if ds = [] \<or> \<not> list_all is_digit ds then None
                  else Some (if neg then - int (digits_value 0 ds) else int (digits_value 0 ds)))
          else None)"

definition atof :: "string \<Rightarrow> real \<times> error option" where
  "atof s =
     (case strip_sign s of (neg, r0) \<Rightarrow>
        let ip = takeWhile is_digit r0;
            r1 = dropWhile is_digit r0;
            fp = (case r1 of [] \<Rightarrow> [] | c # cs \<Rightarrow> if c = CHR ''.'' then takeWhile is_digit cs else []);
            r2 = (case r1 of [] \<Rightarrow> [] | c # cs \<Rightarrow> if c = CHR ''.'' then dropWhile is_digit cs else r1)
        in if ip @ fp = [] \<or> exponent r2 = None
           then (0, Some (''strconv.ParseFloat: parsing '' @ quote s @ '': invalid syntax''))
           else ((if neg then - 1 else 1) * real (digits_value 0 (ip @ fp))
                   * pow10 (the (exponent r2) - int (length fp)), None))"

definition go_strconv :: strconv where
  "go_strconv = \<lparr>ParseInt = atoi, ParseFloat = atof\<rparr>"

section \<open>The satellite record and the TLE parser\<close>

text \<open>
  Modelled from the spec: the declaration of the struct \<open>Satellite\<close> is not among the
  source files. The record has the fields that \<open>ParseTLE\<close> and \<open>NewSatFromTLE\<close> assign
  (the raw lines, the error code, the gravity constants, the catalog number, the epoch
  and the orbital elements); the working fields of the propagator are left out.
\<close>

record Satellite =
  Line1 :: string
  Line2 :: string
  Error :: int
  Whichconst :: GravConst
  satnum :: int
  epochyr :: int
  epochdays :: real
  ndot :: real
  nddot :: real
  bstar :: real
  inclo :: real
  nodeo :: real
  ecco :: real
  argpo :: real
  mo :: real
  no :: real
  jdsatepoch :: JDay

definition zero_Satellite :: Satellite where
  "zero_Satellite =
     \<lparr>Line1 = [], Line2 = [], Error = 0, Whichconst = zero_GravConst, satnum = 0,
      epochyr = 0, epochdays = 0, ndot = 0, nddot = 0, bstar = 0, inclo = 0, nodeo = 0,
      ecco = 0, argpo = 0, mo = 0, no = 0, jdsatepoch = \<lparr>Day = 0, Fraction = 0\<rparr>\<rparr>"

text \<open>
  \<open>ParseTLE\<close> assigns each field from its parser's result and then tests the error: the
  field that fails holds what the parser returned with the error, and the fields after
  it are not assigned.
\<close>

definition ParseTLE :: "strconv \<Rightarrow> string \<Rightarrow> string \<Rightarrow> string \<Rightarrow> Satellite \<times> error option" where
  "ParseTLE lib line1 line2 gravconst =
     (let sat = zero_Satellite in
      if length line1 \<noteq> 69
      then (sat, Some (''Line1 length should be 69 but was '' @ show_nat (length line1)))
      else if length line2 \<noteq> 69
      then (sat, Some (''Line2 length should be 69 but was '' @ show_nat (length line2)))
      else
      let sat = sat\<lparr>Line1 := line1\<rparr>;
          sat = sat\<lparr>Line2 := line2\<rparr>;
          sat = sat\<lparr>Error := 0\<rparr>
      in
      case getGravConst gravconst of (v, err) \<Rightarrow>
      let sat = sat\<lparr>Whichconst := v\<rparr> in
      if err \<noteq> None then (sat, Some (''Error on getting gravconst: '' @ the err)) else
      case parseInt lib (TrimSpace (slice line1 2 7)) of (v, err) \<Rightarrow>
      let sat = sat\<lparr>satnum := v\<rparr> in
      if err \<noteq> None then (sat, Some (''Error on parsing line1[2:7]: '' @ the err)) else
      case parseInt lib (slice line1 18 20) of (v, err) \<Rightarrow>
      let sat = sat\<lparr>epochyr := v\<rparr> in
      if err \<noteq> None then (sat, Some (''Error on parsing line1[18:20]: '' @ the err)) else
      case parseFloat lib (slice line1 20 32) of (v, err) \<Rightarrow>
      let sat = sat\<lparr>epochdays := v\<rparr> in
      if err \<noteq> None then (sat, Some (''Error on parsing line1[20:32]: '' @ the err)) else
      case parseFloat lib (Replace (slice line1 33 43) '' '' [] 2) of (v, err) \<Rightarrow>
      let sat = sat\<lparr>ndot := v\<rparr> in
      if err \<noteq> None then (sat, Some (''Error on parsing line1[33:43]: '' @ the err)) else
      case parseFloat lib (Replace (slice line1 44 45 @ ''.'' @ slice line1 45 50 @ ''e''
                                      @ slice line1 50 52) '' '' [] 2) of (v, err) \<Rightarrow>
      let sat = sat\<lparr>nddot := v\<rparr> in
      if err \<noteq> None then (sat, Some (''Error on parsing line1[44:52]: '' @ the err)) else
      case parseFloat lib (Replace (slice line1 53 54 @ ''.'' @ slice line1 54 59 @ ''e''
                                      @ slice line1 59 61) '' '' [] 2) of (v, err) \<Rightarrow>
      let sat = sat\<lparr>bstar := v\<rparr> in
      if err \<noteq> None then (sat, Some (''Error on parsing line1[53:61]: '' @ the err)) else
      case parseFloat lib (Replace (slice line2 8 16) '' '' [] 2) of (v, err) \<Rightarrow>
      let sat = sat\<lparr>inclo := v\<rparr> in
      if err \<noteq> None then (sat, Some (''Error on parsing line2[8:16]: '' @ the err)) else
      case parseFloat lib (Replace (slice line2 17 25) '' '' [] 2) of (v, err) \<Rightarrow>
      let sat = sat\<lparr>nodeo := v\<rparr> in
      if err \<noteq> None then (sat, Some (''Error on parsing line2[17:25]: '' @ the err)) else
      case parseFloat lib (''.'' @ slice line2 26 33) of (v, err) \<Rightarrow>
      let sat = sat\<lparr>ecco := v\<rparr> in
      if err \<noteq> None then (sat, Some (''Error on parsing line2[26:33]: '' @ the err)) else
      case parseFloat lib (Replace (slice line2 34 42) '' '' [] 2) of (v, err) \<Rightarrow>
      let sat = sat\<lparr>argpo := v\<rparr> in
      if err \<noteq> None then (sat, Some (''Error on parsing line2[34:42]: '' @ the err)) else
      case parseFloat lib (Replace (slice line2 43 51) '' '' [] 2) of (v, err) \<Rightarrow>
      let sat = sat\<lparr>mo := v\<rparr> in
      if err \<noteq> None then (sat, Some (''Error on parsing line2[43:51]: '' @ the err)) else
      case parseFloat lib (Replace (slice line2 52 63) '' '' [] 2) of (v, err) \<Rightarrow>
      let sat = sat\<lparr>no := v\<rparr> in
      if err \<noteq> None then (sat, Some (''Error on parsing line2[52:63]: '' @ the err)) else
      (sat, None))"

text \<open>
  The initializer \<open>sgp4init\<close> of the propagator is outside the source files; it is a
  parameter that takes the operating mode, the epoch in days since 2433281.5 and the
  record, and returns the record it has filled in. A panic of \<open>days2mdhms\<close> ends
  \<open>NewSatFromTLE\<close> with that panic.
\<close>

definition NewSatFromTLE ::
  "(string \<Rightarrow> real \<Rightarrow> Satellite \<Rightarrow> Satellite) \<Rightarrow> strconv \<Rightarrow> string \<Rightarrow> string \<Rightarrow> string
     \<Rightarrow> panic + (Satellite \<times> error option)" where
  "NewSatFromTLE sgp4init lib line1 line2 gravconst =
     (case ParseTLE lib line1 line2 gravconst of (sat, err) \<Rightarrow>
      if err \<noteq> None then Inr (sat, err) else
      let opsmode = ''i'';
          sat = sat\<lparr>no := no sat / XPDOTP\<rparr>;
          sat = sat\<lparr>ndot := ndot sat / (XPDOTP * 1440.0)\<rparr>;
          sat = sat\<lparr>nddot := nddot sat / (XPDOTP * 1440.0 * 1440)\<rparr>;
          sat = sat\<lparr>inclo := inclo sat * DEG2RAD\<rparr>;
          sat = sat\<lparr>nodeo := nodeo sat * DEG2RAD\<rparr>;
          sat = sat\<lparr>argpo := argpo sat * DEG2RAD\<rparr>;
          sat = sat\<lparr>mo := mo sat * DEG2RAD\<rparr>;
          year = (if epochyr sat < 57 then epochyr sat + 2000 else epochyr sat + 1900)
      in
      (case days2mdhms year (epochdays sat) of
         Inl p \<Rightarrow> Inl p
       | Inr (mon, day, hr, minute, sec) \<Rightarrow>
           let sat = sat\<lparr>jdsatepoch := NewJDay year (trunc mon) (trunc day) (trunc hr)
                                             (trunc minute) sec\<rparr>;
               sat = sgp4init opsmode (Subtract (jdsatepoch sat) 2433281.5) sat
           in Inr (sat, None)))"

section \<open>Predicates of the specification\<close>

text \<open>
  Two angles in degrees are congruent modulo 360 when their difference is a whole
  number of turns.
\<close>

definition congruent360 :: "real \<Rightarrow> real \<Rightarrow> bool" where
  "congruent360 a b = ((a - b) / 360 \<in> \<int>)"

text \<open>
  The look angles as Section 4.4 of the specification words them: the local sidereal
  angle of the observer, the range vector from the observer to the satellite, its
  South, East and Zenith components in the observer's frame, its magnitude, and the
  rule for the azimuth (the arc tangent of \<open>- East / South\<close>, plus \<open>pi\<close> when South is
  positive, then plus \<open>2 * pi\<close> when the result is still negative).
\<close>

definition local_sidereal :: "LatLongAlt \<Rightarrow> real \<Rightarrow> real" where
  "local_sidereal obs jday = math_Mod (ThetaG_JD jday + Longitude (LatLong obs)) (2 * pi)"

definition range_vector :: "Vector3 \<Rightarrow> LatLongAlt \<Rightarrow> real \<Rightarrow> GravConst \<Rightarrow> Vector3" where
  "range_vector eciSat obs jday grav =
     \<lparr>X = X eciSat - X (LLAToECI obs jday grav),
      Y = Y eciSat - Y (LLAToECI obs jday grav),
      Z = Z eciSat - Z (LLAToECI obs jday grav)\<rparr>"

definition top_south :: "real \<Rightarrow> real \<Rightarrow> Vector3 \<Rightarrow> real" where
  "top_south lat theta r = sin lat * cos theta * X r + sin lat * sin theta * Y r - cos lat * Z r"

definition top_east :: "real \<Rightarrow> real \<Rightarrow> Vector3 \<Rightarrow> real" where
  "top_east lat theta r = - sin theta * X r + cos theta * Y r"

definition top_zenith :: "real \<Rightarrow> real \<Rightarrow> Vector3 \<Rightarrow> real" where
  "top_zenith lat theta r = cos lat * cos theta * X r + cos lat * sin theta * Y r + sin lat * Z r"

definition magnitude :: "Vector3 \<Rightarrow> real" where
  "magnitude r = sqrt (X r * X r + Y r * Y r + Z r * Z r)"

definition azimuth_rule :: "real \<Rightarrow> real \<Rightarrow> real" where
  "azimuth_rule east south =
     (let az = arctan (- east / south);
          az = (if south > 0 then az + pi else az);
          az = (if az < 0 then az + 2 * pi else az)
      in az)"

section \<open>Predicates of the specification: the element set parser\<close>

text \<open>
  The century of a two-digit epoch year, as the specification words it: below 57 the
  year belongs to the 2000s, from 57 on to the 1900s.
\<close>

definition century_year :: "int \<Rightarrow> int" where
  "century_year y = (if y < 57 then y + 2000 else y + 1900)"

text \<open>
  \<open>strip_spaces k s\<close> is the text \<open>s\<close> with its first \<open>k\<close> spaces deleted and every
  further space replaced by the digit \<open>0\<close>. The text with all its spaces deleted is
  \<open>removeAll (CHR '' '') s\<close>.
\<close>

fun strip_spaces :: "nat \<Rightarrow> string \<Rightarrow> string" where
  "strip_spaces k [] = []"
| "strip_spaces k (c # cs) =
     (if c = CHR '' '' then (case k of 0 \<Rightarrow> CHR ''0'' # strip_spaces 0 cs
                                     | Suc j \<Rightarrow> strip_spaces j cs)
      else c # strip_spaces k cs)"

section \<open>The parse order of the element set\<close>

text \<open>
  The twelve numeric fields of an element set, in the order in which \<open>ParseTLE\<close> parses
  them. \<open>field_columns\<close> is the column range by which an error message names a field,
  \<open>field_error\<close> is the error of the field's parser on the text that \<open>ParseTLE\<close> hands to
  it (\<open>None\<close> when the field parses), and \<open>field_zero\<close> says that a record holds the zero
  value in the field. \<open>first_failure\<close> is the first field of the parse order whose parser
  reports an error, and \<open>fields_after\<close> are the fields that come later in the order.
\<close>

datatype field =
  Fsatnum | Fepochyr | Fepochdays | Fndot | Fnddot | Fbstar
| Finclo | Fnodeo | Fecco | Fargpo | Fmo | Fno

definition parse_order :: "field list" where
  "parse_order = [Fsatnum, Fepochyr, Fepochdays, Fndot, Fnddot, Fbstar,
                  Finclo, Fnodeo, Fecco, Fargpo, Fmo, Fno]"

primrec field_columns :: "field \<Rightarrow> string" where
  "field_columns Fsatnum = ''line1[2:7]''"
| "field_columns Fepochyr = ''line1[18:20]''"
| "field_columns Fepochdays = ''line1[20:32]''"
| "field_columns Fndot = ''line1[33:43]''"
| "field_columns Fnddot = ''line1[44:52]''"
| "field_columns Fbstar = ''line1[53:61]''"
| "field_columns Finclo = ''line2[8:16]''"
| "field_columns Fnodeo = ''line2[17:25]''"
| "field_columns Fecco = ''line2[26:33]''"
| "field_columns Fargpo = ''line2[34:42]''"
| "field_columns Fmo = ''line2[43:51]''"
| "field_columns Fno = ''line2[52:63]''"

primrec field_error :: "strconv \<Rightarrow> string \<Rightarrow> string \<Rightarrow> field \<Rightarrow> error option" where
  "field_error lib line1 line2 Fsatnum = snd (parseInt lib (TrimSpace (slice line1 2 7)))"
| "field_error lib line1 line2 Fepochyr = snd (parseInt lib (slice line1 18 20))"
| "field_error lib line1 line2 Fepochdays = snd (parseFloat lib (slice line1 20 32))"
| "field_error lib line1 line2 Fndot =
     snd (parseFloat lib (Replace (slice line1 33 43) '' '' [] 2))"
| "field_error lib line1 line2 Fnddot =
     snd (parseFloat lib (Replace (slice line1 44 45 @ ''.'' @ slice line1 45 50 @ ''e''
                                     @ slice line1 50 52) '' '' [] 2))"
| "field_error lib line1 line2 Fbstar =
     snd (parseFloat lib (Replace (slice line1 53 54 @ ''.'' @ slice line1 54 59 @ ''e''
                                     @ slice line1 59 61) '' '' [] 2))"
| "field_error lib line1 line2 Finclo =
     snd (parseFloat lib (Replace (slice line2 8 16) '' '' [] 2))"
| "field_error lib line1 line2 Fnodeo =
     snd (parseFloat lib (Replace (slice line2 17 25) '' '' [] 2))"
| "field_error lib line1 line2 Fecco = snd (parseFloat lib (''.'' @ slice line2 26 33))"
| "field_error lib line1 line2 Fargpo =
     snd (parseFloat lib (Replace (slice line2 34 42) '' '' [] 2))"
| "field_error lib line1 line2 Fmo =
     snd (parseFloat lib (Replace (slice line2 43 51) '' '' [] 2))"
| "field_error lib line1 line2 Fno =
     snd (parseFloat lib (Replace (slice line2 52 63) '' '' [] 2))"

primrec field_zero :: "Satellite \<Rightarrow> field \<Rightarrow> bool" where
  "field_zero sat Fsatnum = (satnum sat = 0)"
| "field_zero sat Fepochyr = (epochyr sat = 0)"
| "field_zero sat Fepochdays = (epochdays sat = 0)"
| "field_zero sat Fndot = (ndot sat = 0)"
| "field_zero sat Fnddot = (nddot sat = 0)"
| "field_zero sat Fbstar = (bstar sat = 0)"
| "field_zero sat Finclo = (inclo sat = 0)"
| "field_zero sat Fnodeo = (nodeo sat = 0)"
| "field_zero sat Fecco = (ecco sat = 0)"
| "field_zero sat Fargpo = (argpo sat = 0)"
| "field_zero sat Fmo = (mo sat = 0)"
| "field_zero sat Fno = (no sat = 0)"

definition first_failure :: "strconv \<Rightarrow> string \<Rightarrow> string \<Rightarrow> field option" where
  "first_failure lib line1 line2 =
     find (\<lambda>fld. field_error lib line1 line2 fld \<noteq> None) parse_order"

definition fields_after :: "field \<Rightarrow> field list" where
  "fields_after fld = tl (dropWhile (\<lambda>x. x \<noteq> fld) parse_order)"

section \<open>Element sets for the examples\<close>

text \<open>
  An element set of catalog number 25544 for day 264.51782528 of the year 08, with a
  positive first derivative of the mean motion (one leading space in its columns), and
  variants of it: the same first line with the year digits 57 and 56 and a negative
  derivative, a first line whose columns 33 to 42 hold five digits separated by spaces,
  and a second line whose inclination holds a letter.
\<close>

definition tle08_line1 :: string where
  "tle08_line1 = ''1 25544U 98067A   08264.51782528  .00002182  00000-0 -11606-4 0  2927''"

definition tle57_line1 :: string where
  "tle57_line1 = ''1 25544U 98067A   57264.51782528 -.00002182  00000-0 -11606-4 0  2927''"

definition tle56_line1 :: string where
  "tle56_line1 = ''1 25544U 98067A   56264.51782528 -.00002182  00000-0 -11606-4 0  2927''"

definition tle_spaces_line1 :: string where
  "tle_spaces_line1 = ''1 25544U 98067A   08264.51782528 1 2 3 4 5   00000-0 -11606-4 0  2927''"

definition tle_line2 :: string where
  "tle_line2 = ''2 25544  51.6416 247.4627 0006703 130.5360 325.0288 15.72125391563537''"

definition tle_bad_line2 :: string where
  "tle_bad_line2 = ''2 25544  51.64x6 247.4627 0006703 130.5360 325.0288 15.72125391563537''"

section \<open>Gravity model lookup: results\<close>

lemma getGravConst_wgs72old:
  "getGravConst ''wgs72old'' =
     (\<lparr>mu = 398600.79964, radiusearthkm = 6378.135, xke = 0.0743669161,
       tumin = 1 / 0.0743669161, j2 = 0.001082616, j3 = - 0.00000253881,
       j4 = - 0.00000165597, j3oj2 = - 0.00000253881 / 0.001082616, f = 1 / 298.26\<rparr>, None)"
  by (simp add: getGravConst_def zero_GravConst_def)

lemma getGravConst_wgs72:
  "getGravConst ''wgs72'' =
     (\<lparr>mu = 398600.8, radiusearthkm = 6378.135,
       xke = 60 / sqrt (6378.135 * 6378.135 * 6378.135 / 398600.8),
       tumin = 1 / (60 / sqrt (6378.135 * 6378.135 * 6378.135 / 398600.8)),
       j2 = 0.001082616, j3 = - 0.00000253881,
       j4 = - 0.00000165597, j3oj2 = - 0.00000253881 / 0.001082616, f = 1 / 298.26\<rparr>, None)"
  by (simp add: getGravConst_def zero_GravConst_def)

lemma getGravConst_wgs84:
  "getGravConst ''wgs84'' =
     (\<lparr>mu = 398600.5, radiusearthkm = 6378.137,
       xke = 60 / sqrt (6378.137 * 6378.137 * 6378.137 / 398600.5),
       tumin = 1 / (60 / sqrt (6378.137 * 6378.137 * 6378.137 / 398600.5)),
       j2 = 0.00108262998905, j3 = - 0.00000253215306,
       j4 = - 0.00000161098761, j3oj2 = - 0.00000253215306 / 0.00108262998905,
       f = 1 / 298.257223563\<rparr>, None)"
  by (simp add: getGravConst_def zero_GravConst_def)

lemma getGravConst_unknown:
  assumes "name \<noteq> ''wgs72old''" "name \<noteq> ''wgs72''" "name \<noteq> ''wgs84''"
  shows "getGravConst name = (zero_GravConst, Some (name @ '' is not a valid gravity model''))"
  using assms by (simp add: getGravConst_def)

section \<open>Longitude and latitude in degrees\<close>

lemma trunc_frac_nonneg: "0 \<le> x \<Longrightarrow> 0 \<le> x - of_int (trunc x) \<and> x - of_int (trunc x) < 1"
  unfolding trunc_def by (simp; linarith)

lemma trunc_frac_neg: "x < 0 \<Longrightarrow> - 1 < x - of_int (trunc x) \<and> x - of_int (trunc x) \<le> 0"
  unfolding trunc_def by (simp; linarith)

lemma math_Mod_360: "math_Mod x 360 = 360 * (x / 360 - of_int (trunc (x / 360)))"
  by (simp add: math_Mod_def algebra_simps)

lemma math_Mod_360_bounds: "- 360 < math_Mod x 360 \<and> math_Mod x 360 < 360"
proof (cases "0 \<le> x / 360")
  case True
  from trunc_frac_nonneg[OF this] show ?thesis unfolding math_Mod_360 by simp
next
  case False
  then have "x / 360 < 0" by simp
  from trunc_frac_neg[OF this] show ?thesis unfolding math_Mod_360 by simp
qed

lemma math_Mod_360_cong: "congruent360 (math_Mod x 360) x"
  by (simp add: congruent360_def math_Mod_def)

lemma congruent360_add: "congruent360 a b \<Longrightarrow> congruent360 (360 + a) b"
proof -
  assume "congruent360 a b"
  then have "(a - b) / 360 + 1 \<in> \<int>" unfolding congruent360_def by simp
  moreover have "(360 + a - b) / 360 = (a - b) / 360 + 1" by (simp add: field_simps)
  ultimately show ?thesis unfolding congruent360_def by (simp only:)
qed

lemma ceiling_minus_half: "\<lceil>- (1 / 2) :: real\<rceil> = 0"
  by (rule ceiling_unique) simp_all

lemma LatLongDeg_Longitude:
  "Longitude (fst (LatLongDeg rad)) =
     (let v = math_Mod (Longitude rad / pi * 180) 360
      in if v > 180 then 360 - v else if v < - 180 then 360 + v else v)"
  by (simp add: LatLongDeg_def Let_def)

text \<open>
  Claim C1, as amended. For a latitude within \<open>[-pi/2, pi/2]\<close>, \<open>LatLongDeg\<close> returns no
  error and a longitude in degrees within the closed interval \<open>[-180, 180]\<close>. Whenever
  the remainder \<open>math.Mod(longitude/pi*180, 360)\<close> is at most 180, the returned longitude
  is congruent modulo 360 to the longitude in degrees; a longitude of \<open>3*pi\<close> becomes
  180. The claim as stated asks for the half-open interval \<open>(-180, 180]\<close> and for the
  congruence on every input: \<open>-pi\<close> is returned as \<open>-180\<close>, which the test \<open>< -180\<close> lets
  through, and a remainder above 180 is replaced by \<open>360 - remainder\<close>, the mirror image
  of the congruent angle \<open>remainder - 360\<close>.
\<close>

theorem LatLongDeg_longitude:
  assumes "- pi / 2 \<le> Latitude rad" and "Latitude rad \<le> pi / 2"
  shows "snd (LatLongDeg rad) = None
    \<and> - 180 \<le> Longitude (fst (LatLongDeg rad)) \<and> Longitude (fst (LatLongDeg rad)) \<le> 180
    \<and> (math_Mod (Longitude rad / pi * 180) 360 \<le> 180 \<longrightarrow>
         congruent360 (Longitude (fst (LatLongDeg rad))) (Longitude rad / pi * 180))
    \<and> (Longitude rad = 3 * pi \<longrightarrow> Longitude (fst (LatLongDeg rad)) = 180)"
proof -
  let ?x = "Longitude rad / pi * 180"
  have err: "snd (LatLongDeg rad) = None"
    using assms by (simp add: LatLongDeg_def Let_def)
  have b: "- 360 < math_Mod ?x 360 \<and> math_Mod ?x 360 < 360"
    by (rule math_Mod_360_bounds)
  have rng: "- 180 \<le> Longitude (fst (LatLongDeg rad)) \<and> Longitude (fst (LatLongDeg rad)) \<le> 180"
    using b unfolding LatLongDeg_Longitude Let_def by auto
  have cong: "math_Mod ?x 360 \<le> 180 \<longrightarrow> congruent360 (Longitude (fst (LatLongDeg rad))) ?x"
    unfolding LatLongDeg_Longitude Let_def
    using math_Mod_360_cong[of ?x] congruent360_add[of "math_Mod ?x 360" ?x] by auto
  have three: "Longitude rad = 3 * pi \<longrightarrow> Longitude (fst (LatLongDeg rad)) = 180"
    unfolding LatLongDeg_Longitude Let_def by (simp add: math_Mod_def trunc_def)
  from err rng cong three show ?thesis by simp
qed

theorem LatLongDeg_longitude_witness:
  "snd (LatLongDeg \<lparr>Latitude = 0, Longitude = 3 * pi\<rparr>) = None
   \<and> Longitude (fst (LatLongDeg \<lparr>Latitude = 0, Longitude = 3 * pi\<rparr>)) = 180
   \<and> congruent360 (Longitude (fst (LatLongDeg \<lparr>Latitude = 0, Longitude = 3 * pi\<rparr>))) 540"
  using LatLongDeg_longitude[of "\<lparr>Latitude = 0, Longitude = 3 * pi\<rparr>"]
  by (simp add: math_Mod_def trunc_def congruent360_def)

theorem LatLongDeg_longitude_counterexample:
  "\<not> (- 180 < Longitude (fst (LatLongDeg \<lparr>Latitude = 0, Longitude = - pi\<rparr>)))
   \<and> Longitude (fst (LatLongDeg \<lparr>Latitude = 0, Longitude = 3 * pi / 2\<rparr>)) = 90
   \<and> \<not> congruent360 90 (3 * pi / 2 / pi * 180)"
proof -
  have "frac (- 1 / 2 :: real) \<noteq> 0"
    by (simp add: frac_def)
  then have "(- 1 / 2 :: real) \<notin> \<int>"
    by (simp only: frac_eq_0_iff not_False_eq_True)
  then show ?thesis
    by (simp add: LatLongDeg_Longitude math_Mod_def trunc_def congruent360_def
        ceiling_minus_half)
qed

text \<open>
  Claim C6. \<open>LatLongDeg\<close> returns its error exactly when the latitude in radians is below
  \<open>-pi/2\<close> or above \<open>pi/2\<close>; the two bounds themselves are accepted. A latitude out of
  range is not clamped: the returned latitude stays at zero and the error is set. A
  latitude in range is returned as \<open>latitude*180/pi\<close>.
\<close>

theorem LatLongDeg_latitude:
  "(snd (LatLongDeg rad) \<noteq> None \<longleftrightarrow> Latitude rad < - pi / 2 \<or> pi / 2 < Latitude rad)
   \<and> snd (LatLongDeg rad) =
        (if - pi / 2 \<le> Latitude rad \<and> Latitude rad \<le> pi / 2 then None
         else Some ''Latitude not within bounds -pi/2 to +pi/2'')
   \<and> Latitude (fst (LatLongDeg rad)) =
        (if - pi / 2 \<le> Latitude rad \<and> Latitude rad \<le> pi / 2 then Latitude rad * 180 / pi
         else 0)
   \<and> snd (LatLongDeg \<lparr>Latitude = pi / 2, Longitude = l\<rparr>) = None
   \<and> snd (LatLongDeg \<lparr>Latitude = - pi / 2, Longitude = l\<rparr>) = None"
  by (auto simp add: LatLongDeg_def Let_def)

section \<open>Rotation between the inertial and the Earth-fixed frame\<close>

text \<open>
  Claim C9. Rotating a vector by \<open>ECIToECEF\<close> with the sidereal angle \<open>gmst\<close> and then
  with \<open>- gmst\<close> gives the vector back, for every angle and so for every angle of
  \<open>[0, 2*pi)\<close>, and a rotation leaves the \<open>Z\<close> component as it is. Over the real numbers
  the round trip is exact; the tolerance of the claim is what rounding adds to it.
\<close>

theorem ECIToECEF_inverse:
  "ECIToECEF (ECIToECEF v gmst) (- gmst) = v \<and> Z (ECIToECEF v gmst) = Z v"
proof -
  have x: "(X v * cos gmst + Y v * sin gmst) * cos gmst
             - (Y v * cos gmst - X v * sin gmst) * sin gmst = X v"
  proof -
    have "(X v * cos gmst + Y v * sin gmst) * cos gmst
            - (Y v * cos gmst - X v * sin gmst) * sin gmst
          = X v * (cos gmst * cos gmst + sin gmst * sin gmst)"
      by (simp only: algebra_simps)
    then show ?thesis by simp
  qed
  have y: "(X v * cos gmst + Y v * sin gmst) * sin gmst
             + (Y v * cos gmst - X v * sin gmst) * cos gmst = Y v"
  proof -
    have "(X v * cos gmst + Y v * sin gmst) * sin gmst
            + (Y v * cos gmst - X v * sin gmst) * cos gmst
          = Y v * (cos gmst * cos gmst + sin gmst * sin gmst)"
      by (simp only: algebra_simps)
    then show ?thesis by simp
  qed
  show ?thesis
    using x y by (cases v) (simp add: ECIToECEF_def)
qed

section \<open>Day of the year\<close>

text \<open>
  Claim C3 does not hold for the code. \<open>days2mdhms\<close> always terminates, but it does not
  always return: for day 400 of the year 2021 the loop passes December with \<open>i = 13\<close>,
  and the next test of its condition reads \<open>lmonth[12]\<close> before the cap \<open>i < 22\<close> is
  looked at.
\<close>

theorem days2mdhms_panics:
  "days2mdhms 2021 400 = Inl (IndexOutOfRange 12 12)"
  by (simp add: days2mdhms_def math_Floor_def trunc_def)

section \<open>Look angles\<close>

lemma arctan_plus_pi_nonneg: "\<not> arctan x + pi < 0"
  using arctan_lbound[of x] pi_gt_zero by linarith

lemma azimuth_rule_flat:
  "azimuth_rule east south =
     (if south > 0 then arctan (- east / south) + pi
      else if arctan (- east / south) < 0 then arctan (- east / south) + 2 * pi
      else arctan (- east / south))"
proof (cases "0 < south")
  case True
  then show ?thesis
    using arctan_plus_pi_nonneg[of "- east / south"] by (simp add: azimuth_rule_def Let_def)
next
  case False
  then show ?thesis by (simp add: azimuth_rule_def Let_def)
qed

lemma azimuth_rule_range: "0 \<le> azimuth_rule east south \<and> azimuth_rule east south < 2 * pi"
proof -
  have "- (pi / 2) < arctan (- east / south)" "arctan (- east / south) < pi / 2"
    by (rule arctan_lbound, rule arctan_ubound)
  then show ?thesis
    unfolding azimuth_rule_flat using pi_gt_zero by (auto; linarith)
qed

lemma ECIToLookAngles_Az:
  "Az (ECIToLookAngles eciSat obs jday grav) =
     azimuth_rule
       (top_east (Latitude (LatLong obs)) (local_sidereal obs jday) (range_vector eciSat obs jday grav))
       (top_south (Latitude (LatLong obs)) (local_sidereal obs jday) (range_vector eciSat obs jday grav))"
  unfolding ECIToLookAngles_def Let_def azimuth_rule_def top_east_def top_south_def
      local_sidereal_def range_vector_def
  by (simp only: LookAngles.select_convs Vector3.select_convs)

text \<open>
  Claim C4. For every satellite position, observer and Julian date, the azimuth of
  \<open>ECIToLookAngles\<close> is the arc tangent of \<open>- topE / topS\<close>, to which \<open>pi\<close> is added exactly
  when \<open>topS > 0\<close>, and \<open>2 * pi\<close> after that exactly when the sum is negative. Since the
  arc tangent lies above \<open>- pi / 2\<close>, the second correction never follows the first, and
  the azimuth lies in \<open>[0, 2 * pi)\<close>. The range is the magnitude of the range vector and
  the elevation is the arc sine of \<open>topZ / range\<close>. (Over the real numbers a division by
  zero has the value zero; where \<open>topS\<close> or the range is zero, IEEE arithmetic gives an
  infinity or NaN instead.)
\<close>

theorem ECIToLookAngles_rule:
  "(let lat = Latitude (LatLong obs);
        theta = local_sidereal obs jday;
        r = range_vector eciSat obs jday grav;
        south = top_south lat theta r;
        east = top_east lat theta r;
        zenith = top_zenith lat theta r;
        a = arctan (- east / south);
        la = ECIToLookAngles eciSat obs jday grav
    in Az la = azimuth_rule east south
     \<and> Az la = (if south > 0 then a + pi else if a < 0 then a + 2 * pi else a)
     \<and> 0 \<le> Az la \<and> Az la < 2 * pi
     \<and> Rg la = magnitude r
     \<and> El la = arcsin (zenith / magnitude r))"
proof -
  have rg: "Rg (ECIToLookAngles eciSat obs jday grav) = magnitude (range_vector eciSat obs jday grav)"
    by (simp add: ECIToLookAngles_def Let_def magnitude_def range_vector_def)
  have el: "El (ECIToLookAngles eciSat obs jday grav) =
      arcsin (top_zenith (Latitude (LatLong obs)) (local_sidereal obs jday) (range_vector eciSat obs jday grav)
              / magnitude (range_vector eciSat obs jday grav))"
    by (simp add: ECIToLookAngles_def Let_def magnitude_def range_vector_def top_zenith_def
        local_sidereal_def)
  show ?thesis
    unfolding Let_def ECIToLookAngles_Az rg el
    using azimuth_rule_flat azimuth_rule_range by simp
qed

section \<open>Gravity model lookup: the names and the derived constants\<close>

text \<open>
  Claim C7. \<open>getGravConst\<close> returns no error exactly for the names \<open>wgs72old\<close>, \<open>wgs72\<close> and
  \<open>wgs84\<close>. For any other name the error is the name followed by
  \<open>is not a valid gravity model\<close>, and every field of the returned constants is zero.
\<close>

theorem getGravConst_names:
  "(snd (getGravConst name) = None \<longleftrightarrow> name \<in> {''wgs72old'', ''wgs72'', ''wgs84''})
   \<and> (snd (getGravConst name) \<noteq> None \<longrightarrow>
        snd (getGravConst name) = Some (name @ '' is not a valid gravity model'')
        \<and> fst (getGravConst name) =
            \<lparr>mu = 0, radiusearthkm = 0, xke = 0, tumin = 0, j2 = 0, j3 = 0, j4 = 0,
             j3oj2 = 0, f = 0\<rparr>)"
proof (cases "name \<in> {''wgs72old'', ''wgs72'', ''wgs84''}")
  case True
  then show ?thesis
    using getGravConst_wgs72old getGravConst_wgs72 getGravConst_wgs84 by auto
next
  case False
  then have "getGravConst name = (zero_GravConst, Some (name @ '' is not a valid gravity model''))"
    by (intro getGravConst_unknown) auto
  with False show ?thesis by (simp add: zero_GravConst_def)
qed

theorem getGravConst_names_witness:
  "snd (getGravConst ''wgs96'') \<noteq> None
   \<and> snd (getGravConst ''wgs96'') = Some ''wgs96 is not a valid gravity model''
   \<and> fst (getGravConst ''wgs96'') =
        \<lparr>mu = 0, radiusearthkm = 0, xke = 0, tumin = 0, j2 = 0, j3 = 0, j4 = 0,
         j3oj2 = 0, f = 0\<rparr>"
  using getGravConst_names[of "''wgs96''"] by (simp add: getGravConst_def)

lemma xke_square:
  fixes q c :: real
  assumes "0 < q" and "c = 60 / sqrt q"
  shows "c * c * q = 3600"
proof -
  have s: "sqrt q * sqrt q = q" using assms(1) by simp
  have nz: "sqrt q \<noteq> 0" using assms(1) by simp
  have "c * c * q = (60 / sqrt q) * (60 / sqrt q) * (sqrt q * sqrt q)"
    by (simp only: assms(2) s)
  also have "\<dots> = 3600" using nz by (simp add: field_simps)
  finally show ?thesis .
qed

lemma xke_wgs72old_not_derived:
  "(0.0743669161 :: real) \<noteq> 60 / sqrt (6378.135 * 6378.135 * 6378.135 / 398600.79964)"
proof
  assume a: "(0.0743669161 :: real) = 60 / sqrt (6378.135 * 6378.135 * 6378.135 / 398600.79964)"
  have "(0 :: real) < 6378.135 * 6378.135 * 6378.135 / 398600.79964" by simp
  from xke_square[OF this a] show False by simp
qed

text \<open>
  Claim C10. For \<open>wgs72old\<close> the constant \<open>xke\<close> is the literal 0.0743669161, which is not
  the value \<open>60 / sqrt (radiusearthkm^3 / mu)\<close> of that model; for \<open>wgs72\<close> and \<open>wgs84\<close> it
  is that derived value, computed from the hard-coded \<open>mu\<close> and \<open>radiusearthkm\<close> of the
  model, which the statement fixes, so that the derived \<open>xke\<close> is a positive number. In
  all three models \<open>tumin = 1 / xke\<close> and \<open>j3oj2 = j3 / j2\<close>, with the hard-coded non-zero
  \<open>j2\<close> and \<open>j3\<close> of the model.
\<close>

theorem getGravConst_xke:
  "snd (getGravConst ''wgs72old'') = None
   \<and> snd (getGravConst ''wgs72'') = None
   \<and> snd (getGravConst ''wgs84'') = None
   \<and> mu (fst (getGravConst ''wgs72old'')) = 398600.79964
   \<and> radiusearthkm (fst (getGravConst ''wgs72old'')) = 6378.135
   \<and> j2 (fst (getGravConst ''wgs72old'')) = 0.001082616
   \<and> j3 (fst (getGravConst ''wgs72old'')) = - 0.00000253881
   \<and> mu (fst (getGravConst ''wgs72'')) = 398600.8
   \<and> radiusearthkm (fst (getGravConst ''wgs72'')) = 6378.135
   \<and> j2 (fst (getGravConst ''wgs72'')) = 0.001082616
   \<and> j3 (fst (getGravConst ''wgs72'')) = - 0.00000253881
   \<and> mu (fst (getGravConst ''wgs84'')) = 398600.5
   \<and> radiusearthkm (fst (getGravConst ''wgs84'')) = 6378.137
   \<and> j2 (fst (getGravConst ''wgs84'')) = 0.00108262998905
   \<and> j3 (fst (getGravConst ''wgs84'')) = - 0.00000253215306
   \<and> xke (fst (getGravConst ''wgs72old'')) = 0.0743669161
   \<and> xke (fst (getGravConst ''wgs72old'')) \<noteq>
       60 / sqrt (radiusearthkm (fst (getGravConst ''wgs72old''))
                  * radiusearthkm (fst (getGravConst ''wgs72old''))
                  * radiusearthkm (fst (getGravConst ''wgs72old''))
                  / mu (fst (getGravConst ''wgs72old'')))
   \<and> xke (fst (getGravConst ''wgs72'')) =
       60 / sqrt (radiusearthkm (fst (getGravConst ''wgs72''))
                  * radiusearthkm (fst (getGravConst ''wgs72''))
                  * radiusearthkm (fst (getGravConst ''wgs72''))
                  / mu (fst (getGravConst ''wgs72'')))
   \<and> xke (fst (getGravConst ''wgs84'')) =
       60 / sqrt (radiusearthkm (fst (getGravConst ''wgs84''))
                  * radiusearthkm (fst (getGravConst ''wgs84''))
                  * radiusearthkm (fst (getGravConst ''wgs84''))
                  / mu (fst (getGravConst ''wgs84'')))
   \<and> 0 < xke (fst (getGravConst ''wgs72''))
   \<and> 0 < xke (fst (getGravConst ''wgs84''))
   \<and> tumin (fst (getGravConst ''wgs72old'')) = 1 / xke (fst (getGravConst ''wgs72old''))
   \<and> tumin (fst (getGravConst ''wgs72'')) = 1 / xke (fst (getGravConst ''wgs72''))
   \<and> tumin (fst (getGravConst ''wgs84'')) = 1 / xke (fst (getGravConst ''wgs84''))
   \<and> j3oj2 (fst (getGravConst ''wgs72old'')) =
       j3 (fst (getGravConst ''wgs72old'')) / j2 (fst (getGravConst ''wgs72old''))
   \<and> j3oj2 (fst (getGravConst ''wgs72'')) =
       j3 (fst (getGravConst ''wgs72'')) / j2 (fst (getGravConst ''wgs72''))
   \<and> j3oj2 (fst (getGravConst ''wgs84'')) =
       j3 (fst (getGravConst ''wgs84'')) / j2 (fst (getGravConst ''wgs84''))"
  unfolding getGravConst_wgs72old getGravConst_wgs72 getGravConst_wgs84
  using xke_wgs72old_not_derived by simp

section \<open>The element set parser: results\<close>

lemmas ev = slice_def TrimSpace_def isSpace_def atoi_def atof_def strip_sign_def is_digit_def
  exponent_def pow10_def quote_def go_strconv_def parseInt_def parseFloat_def Let_def

text \<open>The result of \<open>ParseTLE\<close> when every field parses.\<close>

lemma ParseTLE_ok:
  assumes "length line1 = 69" and "length line2 = 69"
    and "snd (getGravConst gravconst) = None"
    and "snd (parseInt lib (TrimSpace (slice line1 2 7))) = None"
    and "snd (parseInt lib (slice line1 18 20)) = None"
    and "snd (parseFloat lib (slice line1 20 32)) = None"
    and "snd (parseFloat lib (Replace (slice line1 33 43) '' '' [] 2)) = None"
    and "snd (parseFloat lib (Replace (slice line1 44 45 @ ''.'' @ slice line1 45 50 @ ''e''
                                      @ slice line1 50 52) '' '' [] 2)) = None"
    and "snd (parseFloat lib (Replace (slice line1 53 54 @ ''.'' @ slice line1 54 59 @ ''e''
                                      @ slice line1 59 61) '' '' [] 2)) = None"
    and "snd (parseFloat lib (Replace (slice line2 8 16) '' '' [] 2)) = None"
    and "snd (parseFloat lib (Replace (slice line2 17 25) '' '' [] 2)) = None"
    and "snd (parseFloat lib (''.'' @ slice line2 26 33)) = None"
    and "snd (parseFloat lib (Replace (slice line2 34 42) '' '' [] 2)) = None"
    and "snd (parseFloat lib (Replace (slice line2 43 51) '' '' [] 2)) = None"
    and "snd (parseFloat lib (Replace (slice line2 52 63) '' '' [] 2)) = None"
  shows "ParseTLE lib line1 line2 gravconst =
     (\<lparr>Line1 = line1, Line2 = line2, Error = 0, Whichconst = fst (getGravConst gravconst),
       satnum = fst (parseInt lib (TrimSpace (slice line1 2 7))),
       epochyr = fst (parseInt lib (slice line1 18 20)),
       epochdays = fst (parseFloat lib (slice line1 20 32)),
       ndot = fst (parseFloat lib (Replace (slice line1 33 43) '' '' [] 2)),
       nddot = fst (parseFloat lib (Replace (slice line1 44 45 @ ''.'' @ slice line1 45 50 @ ''e''
                                      @ slice line1 50 52) '' '' [] 2)),
       bstar = fst (parseFloat lib (Replace (slice line1 53 54 @ ''.'' @ slice line1 54 59 @ ''e''
                                      @ slice line1 59 61) '' '' [] 2)),
       inclo = fst (parseFloat lib (Replace (slice line2 8 16) '' '' [] 2)),
       nodeo = fst (parseFloat lib (Replace (slice line2 17 25) '' '' [] 2)),
       ecco = fst (parseFloat lib (''.'' @ slice line2 26 33)),
       argpo = fst (parseFloat lib (Replace (slice line2 34 42) '' '' [] 2)),
       mo = fst (parseFloat lib (Replace (slice line2 43 51) '' '' [] 2)),
       no = fst (parseFloat lib (Replace (slice line2 52 63) '' '' [] 2)),
       jdsatepoch = \<lparr>Day = 0, Fraction = 0\<rparr>\<rparr>, None)"
  using assms unfolding ParseTLE_def zero_Satellite_def
  by (simp add: Let_def case_prod_beta del: Replace.simps)

text \<open>The fields of the example element sets, as \<open>go_strconv\<close> parses them.\<close>

lemma tle08_line1_fields:
  "length tle08_line1 = 69"
  "parseInt go_strconv (TrimSpace (slice tle08_line1 2 7)) = (25544, None)"
  "parseInt go_strconv (slice tle08_line1 18 20) = (8, None)"
  "parseFloat go_strconv (slice tle08_line1 20 32) = (264.51782528, None)"
  "parseFloat go_strconv (Replace (slice tle08_line1 33 43) '' '' [] 2) = (0.00002182, None)"
  "parseFloat go_strconv (Replace (slice tle08_line1 44 45 @ ''.'' @ slice tle08_line1 45 50 @ ''e''
       @ slice tle08_line1 50 52) '' '' [] 2) = (0, None)"
  "parseFloat go_strconv (Replace (slice tle08_line1 53 54 @ ''.'' @ slice tle08_line1 54 59 @ ''e''
       @ slice tle08_line1 59 61) '' '' [] 2) = (- 0.000011606, None)"
  by (simp_all add: ev tle08_line1_def)

lemma tle57_line1_fields:
  "length tle57_line1 = 69"
  "parseInt go_strconv (TrimSpace (slice tle57_line1 2 7)) = (25544, None)"
  "parseInt go_strconv (slice tle57_line1 18 20) = (57, None)"
  "parseFloat go_strconv (slice tle57_line1 20 32) = (264.51782528, None)"
  "parseFloat go_strconv (Replace (slice tle57_line1 33 43) '' '' [] 2) = (- 0.00002182, None)"
  "parseFloat go_strconv (Replace (slice tle57_line1 44 45 @ ''.'' @ slice tle57_line1 45 50 @ ''e''
       @ slice tle57_line1 50 52) '' '' [] 2) = (0, None)"
  "parseFloat go_strconv (Replace (slice tle57_line1 53 54 @ ''.'' @ slice tle57_line1 54 59 @ ''e''
       @ slice tle57_line1 59 61) '' '' [] 2) = (- 0.000011606, None)"
  by (simp_all add: ev tle57_line1_def)

lemma tle56_line1_fields:
  "length tle56_line1 = 69"
  "parseInt go_strconv (TrimSpace (slice tle56_line1 2 7)) = (25544, None)"
  "parseInt go_strconv (slice tle56_line1 18 20) = (56, None)"
  "parseFloat go_strconv (slice tle56_line1 20 32) = (264.51782528, None)"
  "parseFloat go_strconv (Replace (slice tle56_line1 33 43) '' '' [] 2) = (- 0.00002182, None)"
  "parseFloat go_strconv (Replace (slice tle56_line1 44 45 @ ''.'' @ slice tle56_line1 45 50 @ ''e''
       @ slice tle56_line1 50 52) '' '' [] 2) = (0, None)"
  "parseFloat go_strconv (Replace (slice tle56_line1 53 54 @ ''.'' @ slice tle56_line1 54 59 @ ''e''
       @ slice tle56_line1 59 61) '' '' [] 2) = (- 0.000011606, None)"
  by (simp_all add: ev tle56_line1_def)

lemma tle_spaces_line1_fields:
  "length tle_spaces_line1 = 69"
  "parseInt go_strconv (TrimSpace (slice tle_spaces_line1 2 7)) = (25544, None)"
  "parseInt go_strconv (slice tle_spaces_line1 18 20) = (8, None)"
  "parseFloat go_strconv (slice tle_spaces_line1 20 32) = (264.51782528, None)"
  "parseFloat go_strconv (Replace (slice tle_spaces_line1 33 43) '' '' [] 2) = (12304050, None)"
  "parseFloat go_strconv (Replace (slice tle_spaces_line1 44 45 @ ''.'' @ slice tle_spaces_line1 45 50 @ ''e''
       @ slice tle_spaces_line1 50 52) '' '' [] 2) = (0, None)"
  "parseFloat go_strconv (Replace (slice tle_spaces_line1 53 54 @ ''.'' @ slice tle_spaces_line1 54 59 @ ''e''
       @ slice tle_spaces_line1 59 61) '' '' [] 2) = (- 0.000011606, None)"
  by (simp_all add: ev tle_spaces_line1_def)

lemma tle_line2_fields:
  "length tle_line2 = 69"
  "parseFloat go_strconv (Replace (slice tle_line2 8 16) '' '' [] 2) = (51.6416, None)"
  "parseFloat go_strconv (Replace (slice tle_line2 17 25) '' '' [] 2) = (247.4627, None)"
  "parseFloat go_strconv (''.'' @ slice tle_line2 26 33) = (0.0006703, None)"
  "parseFloat go_strconv (Replace (slice tle_line2 34 42) '' '' [] 2) = (130.5360, None)"
  "parseFloat go_strconv (Replace (slice tle_line2 43 51) '' '' [] 2) = (325.0288, None)"
  "parseFloat go_strconv (Replace (slice tle_line2 52 63) '' '' [] 2) = (15.72125391, None)"
  by (simp_all add: ev tle_line2_def)

lemma tle_bad_line2_fields:
  "length tle_bad_line2 = 69"
  "parseFloat go_strconv (Replace (slice tle_bad_line2 8 16) '' '' [] 2) =
     (0, Some (''strconv.ParseFloat: parsing '' @ quote ''51.64x6'' @ '': invalid syntax''))"
  by (simp_all add: ev tle_bad_line2_def)

lemma ParseTLE_tle57_line1:
  "ParseTLE go_strconv tle57_line1 tle_line2 ''wgs72'' =
     (\<lparr>Line1 = tle57_line1, Line2 = tle_line2, Error = 0,
       Whichconst = fst (getGravConst ''wgs72''),
       satnum = 25544, epochyr = 57, epochdays = 264.51782528, ndot = - 0.00002182,
       nddot = 0, bstar = - 0.000011606, inclo = 51.6416, nodeo = 247.4627,
       ecco = 0.0006703, argpo = 130.5360, mo = 325.0288, no = 15.72125391,
       jdsatepoch = \<lparr>Day = 0, Fraction = 0\<rparr>\<rparr>, None)"
  by (simp only: ParseTLE_ok tle57_line1_fields tle_line2_fields getGravConst_wgs72 fst_conv snd_conv)

lemma ParseTLE_tle56_line1:
  "ParseTLE go_strconv tle56_line1 tle_line2 ''wgs72'' =
     (\<lparr>Line1 = tle56_line1, Line2 = tle_line2, Error = 0,
       Whichconst = fst (getGravConst ''wgs72''),
       satnum = 25544, epochyr = 56, epochdays = 264.51782528, ndot = - 0.00002182,
       nddot = 0, bstar = - 0.000011606, inclo = 51.6416, nodeo = 247.4627,
       ecco = 0.0006703, argpo = 130.5360, mo = 325.0288, no = 15.72125391,
       jdsatepoch = \<lparr>Day = 0, Fraction = 0\<rparr>\<rparr>, None)"
  by (simp only: ParseTLE_ok tle56_line1_fields tle_line2_fields getGravConst_wgs72 fst_conv snd_conv)

lemma ParseTLE_tle_spaces_line1:
  "ParseTLE go_strconv tle_spaces_line1 tle_line2 ''wgs72'' =
     (\<lparr>Line1 = tle_spaces_line1, Line2 = tle_line2, Error = 0,
       Whichconst = fst (getGravConst ''wgs72''),
       satnum = 25544, epochyr = 8, epochdays = 264.51782528, ndot = 12304050,
       nddot = 0, bstar = - 0.000011606, inclo = 51.6416, nodeo = 247.4627,
       ecco = 0.0006703, argpo = 130.5360, mo = 325.0288, no = 15.72125391,
       jdsatepoch = \<lparr>Day = 0, Fraction = 0\<rparr>\<rparr>, None)"
  by (simp only: ParseTLE_ok tle_spaces_line1_fields tle_line2_fields getGravConst_wgs72 fst_conv snd_conv)

section \<open>The first derivative of the mean motion\<close>

lemma Replace_strip_spaces:
  "n < 0 \<Longrightarrow> Replace (Replace s '' '' [] (int k)) '' '' ''0'' n = strip_spaces k s"
proof (induction s arbitrary: k n)
  case Nil
  show ?case by simp
next
  case (Cons c cs)
  show ?case
  proof (cases k)
    case 0
    with Cons.IH[of "n - 1" 0] Cons.IH[of n 0] Cons.prems show ?thesis by simp
  next
    case (Suc j)
    have e: "int (Suc j) - 1 = int j" by simp
    from Cons.IH[of n j] Cons.IH[of n k] Cons.prems Suc show ?thesis
      by (simp del: of_nat_Suc add: e)
  qed
qed

lemma strip_spaces_removeAll:
  "count_list s (CHR '' '') \<le> k \<Longrightarrow> strip_spaces k s = removeAll (CHR '' '') s"
  by (induction s arbitrary: k) (auto split: nat.splits)

lemma ndot_of_ParseTLE:
  assumes "length line1 = 69" and "length line2 = 69"
    and "snd (getGravConst gravconst) = None"
    and "snd (parseInt lib (TrimSpace (slice line1 2 7))) = None"
    and "snd (parseInt lib (slice line1 18 20)) = None"
    and "snd (parseFloat lib (slice line1 20 32)) = None"
  shows "ndot (fst (ParseTLE lib line1 line2 gravconst)) =
           fst (parseFloat lib (Replace (slice line1 33 43) '' '' [] 2))"
  using assms unfolding ParseTLE_def zero_Satellite_def
  by (simp add: Let_def case_prod_beta del: Replace.simps)

text \<open>
  Claim C2, as amended. \<open>ParseTLE\<close> parses the first derivative of the mean motion when
  both lines hold 69 characters, the gravity model is known and the three fields before
  it parse. Then \<open>ndot\<close> is the number that \<open>strconv.ParseFloat\<close> reads from columns 33 to
  42 of line 1 after the first two spaces have been deleted and every further space has
  been replaced by the digit \<open>0\<close>. When the columns hold at most two spaces, that is the
  number read from the columns with all spaces deleted.
\<close>

theorem ParseTLE_ndot:
  assumes "length line1 = 69" and "length line2 = 69"
    and "snd (getGravConst gravconst) = None"
    and "snd (parseInt lib (TrimSpace (slice line1 2 7))) = None"
    and "snd (parseInt lib (slice line1 18 20)) = None"
    and "snd (parseFloat lib (slice line1 20 32)) = None"
  shows "ndot (fst (ParseTLE lib line1 line2 gravconst)) =
           fst (ParseFloat lib (strip_spaces 2 (slice line1 33 43)))
         \<and> (count_list (slice line1 33 43) (CHR '' '') \<le> 2 \<longrightarrow>
              ndot (fst (ParseTLE lib line1 line2 gravconst)) =
                fst (ParseFloat lib (removeAll (CHR '' '') (slice line1 33 43))))"
proof -
  have "Replace (Replace (slice line1 33 43) '' '' [] (int 2)) '' '' ''0'' (- 1) =
          strip_spaces 2 (slice line1 33 43)"
    by (rule Replace_strip_spaces) simp
  then have "ndot (fst (ParseTLE lib line1 line2 gravconst)) =
               fst (ParseFloat lib (strip_spaces 2 (slice line1 33 43)))"
    using ndot_of_ParseTLE[OF assms] by (simp add: parseFloat_def del: Replace.simps)
  then show ?thesis
    by (simp add: strip_spaces_removeAll)
qed

theorem ParseTLE_ndot_witness:
  "length tle08_line1 = 69 \<and> length tle_line2 = 69
   \<and> snd (getGravConst ''wgs72'') = None
   \<and> snd (parseInt go_strconv (TrimSpace (slice tle08_line1 2 7))) = None
   \<and> snd (parseInt go_strconv (slice tle08_line1 18 20)) = None
   \<and> snd (parseFloat go_strconv (slice tle08_line1 20 32)) = None
   \<and> slice tle08_line1 33 43 = '' .00002182''
   \<and> count_list (slice tle08_line1 33 43) (CHR '' '') \<le> 2
   \<and> removeAll (CHR '' '') (slice tle08_line1 33 43) = ''.00002182''
   \<and> ndot (fst (ParseTLE go_strconv tle08_line1 tle_line2 ''wgs72'')) = 0.00002182"
proof -
  have g: "snd (getGravConst ''wgs72'') = None"
    by (simp only: getGravConst_wgs72 snd_conv)
  have s: "slice tle08_line1 33 43 = '' .00002182''"
    by (simp add: slice_def tle08_line1_def)
  have c: "count_list (slice tle08_line1 33 43) (CHR '' '') \<le> 2"
    unfolding s by simp
  have r: "removeAll (CHR '' '') (slice tle08_line1 33 43) = ''.00002182''"
    unfolding s by simp
  have p: "snd (parseInt go_strconv (TrimSpace (slice tle08_line1 2 7))) = None"
    "snd (parseInt go_strconv (slice tle08_line1 18 20)) = None"
    "snd (parseFloat go_strconv (slice tle08_line1 20 32)) = None"
    by (simp_all only: tle08_line1_fields snd_conv)
  have v: "fst (ParseFloat go_strconv ''.00002182'') = 0.00002182"
    by (simp add: ev)
  note t = ParseTLE_ndot[OF tle08_line1_fields(1) tle_line2_fields(1) g p]
  from t c have "ndot (fst (ParseTLE go_strconv tle08_line1 tle_line2 ''wgs72'')) =
      fst (ParseFloat go_strconv (removeAll (CHR '' '') (slice tle08_line1 33 43)))"
    by blast
  then have "ndot (fst (ParseTLE go_strconv tle08_line1 tle_line2 ''wgs72'')) = 0.00002182"
    by (simp only: r v)
  then show ?thesis
    by (intro conjI tle08_line1_fields(1) tle_line2_fields(1) g p s c r)
qed

text \<open>
  The claim as first worded fails on columns that hold more than two spaces: of
  \<open>1 2 3 4 5\<close> followed by a space, the first two spaces are deleted and the other three
  become zeros, so that the whole element set parses without an error and \<open>ndot\<close> is
  12304050, where the columns with all spaces deleted read 12345.
\<close>

theorem ParseTLE_ndot_counterexample:
  "length tle_spaces_line1 = 69 \<and> length tle_line2 = 69
   \<and> slice tle_spaces_line1 33 43 = ''1 2 3 4 5 ''
   \<and> snd (ParseTLE go_strconv tle_spaces_line1 tle_line2 ''wgs72'') = None
   \<and> ndot (fst (ParseTLE go_strconv tle_spaces_line1 tle_line2 ''wgs72'')) = 12304050
   \<and> removeAll (CHR '' '') (slice tle_spaces_line1 33 43) = ''12345''
   \<and> fst (ParseFloat go_strconv (removeAll (CHR '' '') (slice tle_spaces_line1 33 43))) = 12345
   \<and> ndot (fst (ParseTLE go_strconv tle_spaces_line1 tle_line2 ''wgs72'')) \<noteq>
       fst (ParseFloat go_strconv (removeAll (CHR '' '') (slice tle_spaces_line1 33 43)))"
proof -
  have s: "slice tle_spaces_line1 33 43 = ''1 2 3 4 5 ''"
    by (simp add: slice_def tle_spaces_line1_def)
  have r: "removeAll (CHR '' '') (slice tle_spaces_line1 33 43) = ''12345''"
    unfolding s by simp
  have v: "fst (ParseFloat go_strconv (removeAll (CHR '' '') (slice tle_spaces_line1 33 43))) = 12345"
    unfolding r by (simp add: ev)
  have n: "ndot (fst (ParseTLE go_strconv tle_spaces_line1 tle_line2 ''wgs72'')) = 12304050"
    by (simp only: ParseTLE_tle_spaces_line1 fst_conv Satellite.select_convs)
  have e: "snd (ParseTLE go_strconv tle_spaces_line1 tle_line2 ''wgs72'') = None"
    by (simp only: ParseTLE_tle_spaces_line1 snd_conv)
  have d: "ndot (fst (ParseTLE go_strconv tle_spaces_line1 tle_line2 ''wgs72'')) \<noteq>
       fst (ParseFloat go_strconv (removeAll (CHR '' '') (slice tle_spaces_line1 33 43)))"
    unfolding n v by simp
  show ?thesis
    by (intro conjI tle_spaces_line1_fields(1) tle_line2_fields(1) s e n r v d)
qed

section \<open>The first failing field\<close>

text \<open>
  Claim C5. A field fails numeric parsing in a run of \<open>ParseTLE\<close> that reaches the
  fields: both lines hold 69 characters and the gravity model is known. When
  \<open>first_failure\<close> is a field, \<open>ParseTLE\<close> returns the error that names the column range of
  that field followed by the error of the parser, every field after it in the parse
  order is zero in the returned record, and \<open>NewSatFromTLE\<close> hands back the record and
  the error of \<open>ParseTLE\<close> as they are, without converting or initialising anything.
\<close>

theorem ParseTLE_first_failure:
  assumes "length line1 = 69" and "length line2 = 69"
    and "snd (getGravConst gravconst) = None"
    and "first_failure lib line1 line2 = Some fld"
  shows "snd (ParseTLE lib line1 line2 gravconst) =
           Some (''Error on parsing '' @ field_columns fld @ '': ''
                   @ the (field_error lib line1 line2 fld))
         \<and> field_error lib line1 line2 fld \<noteq> None
         \<and> (\<forall>later \<in> set (fields_after fld).
               field_zero (fst (ParseTLE lib line1 line2 gravconst)) later)
         \<and> NewSatFromTLE sgp4init lib line1 line2 gravconst =
             Inr (ParseTLE lib line1 line2 gravconst)"
proof -
  have f: "field_error lib line1 line2 fld \<noteq> None"
    using assms(4) unfolding first_failure_def by (auto simp: find_Some_iff)
  have pre: "list_all (\<lambda>x. field_error lib line1 line2 x = None)
               (takeWhile (\<lambda>x. x \<noteq> fld) parse_order)"
    using assms(4) unfolding first_failure_def parse_order_def
    by (cases fld) (simp_all split: if_splits)
  have a: "snd (ParseTLE lib line1 line2 gravconst) =
           Some (''Error on parsing '' @ field_columns fld @ '': ''
                   @ the (field_error lib line1 line2 fld))
         \<and> (\<forall>later \<in> set (fields_after fld).
               field_zero (fst (ParseTLE lib line1 line2 gravconst)) later)"
    using assms(1-3) f pre unfolding parse_order_def fields_after_def ParseTLE_def
      zero_Satellite_def
    by (cases fld) (simp_all add: Let_def case_prod_beta del: Replace.simps)
  then have "snd (ParseTLE lib line1 line2 gravconst) \<noteq> None"
    by simp
  then have "NewSatFromTLE sgp4init lib line1 line2 gravconst =
             Inr (ParseTLE lib line1 line2 gravconst)"
    unfolding NewSatFromTLE_def by (simp add: case_prod_beta)
  with f a show ?thesis by simp
qed

theorem ParseTLE_first_failure_witness:
  "length tle08_line1 = 69 \<and> length tle_bad_line2 = 69
   \<and> snd (getGravConst ''wgs72'') = None
   \<and> first_failure go_strconv tle08_line1 tle_bad_line2 = Some Finclo
   \<and> snd (ParseTLE go_strconv tle08_line1 tle_bad_line2 ''wgs72'') =
       Some (''Error on parsing line2[8:16]: strconv.ParseFloat: parsing ''
               @ quote ''51.64x6'' @ '': invalid syntax'')
   \<and> nodeo (fst (ParseTLE go_strconv tle08_line1 tle_bad_line2 ''wgs72'')) = 0
   \<and> ecco (fst (ParseTLE go_strconv tle08_line1 tle_bad_line2 ''wgs72'')) = 0
   \<and> argpo (fst (ParseTLE go_strconv tle08_line1 tle_bad_line2 ''wgs72'')) = 0
   \<and> mo (fst (ParseTLE go_strconv tle08_line1 tle_bad_line2 ''wgs72'')) = 0
   \<and> no (fst (ParseTLE go_strconv tle08_line1 tle_bad_line2 ''wgs72'')) = 0
   \<and> NewSatFromTLE (\<lambda>opsmode epoch sat. sat) go_strconv tle08_line1 tle_bad_line2 ''wgs72'' =
       Inr (ParseTLE go_strconv tle08_line1 tle_bad_line2 ''wgs72'')"
proof -
  have g: "snd (getGravConst ''wgs72'') = None"
    by (simp only: getGravConst_wgs72 snd_conv)
  have ff: "first_failure go_strconv tle08_line1 tle_bad_line2 = Some Finclo"
    unfolding first_failure_def parse_order_def
    by (simp only: find.simps field_error.simps tle08_line1_fields tle_bad_line2_fields
          snd_conv simp_thms option.simps if_True if_False)
  have fe: "the (field_error go_strconv tle08_line1 tle_bad_line2 Finclo) =
      ''strconv.ParseFloat: parsing '' @ quote ''51.64x6'' @ '': invalid syntax''"
    by (simp only: field_error.simps tle_bad_line2_fields snd_conv option.sel)
  have fa: "fields_after Finclo = [Fnodeo, Fecco, Fargpo, Fmo, Fno]"
    unfolding fields_after_def parse_order_def by simp
  note t = ParseTLE_first_failure[OF tle08_line1_fields(1) tle_bad_line2_fields(1) g ff,
      where sgp4init = "\<lambda>opsmode epoch sat. sat"]
  from t show ?thesis
    unfolding fe fa
    by (simp add: g ff tle08_line1_fields(1) tle_bad_line2_fields(1) del: Replace.simps)
qed

section \<open>The century of the epoch year\<close>

lemma trunc_numerals:
  "trunc 9 = 9" "trunc 21 = 21" "trunc 20 = 20" "trunc 12 = 12" "trunc 25 = 25"
  by (simp_all add: trunc_def)

lemma days2mdhms_1957: "days2mdhms 1957 264.51782528 = Inr (9, 21, 12, 25, 40.104192)"
  by (simp add: days2mdhms_def math_Floor_def trunc_def)

lemma days2mdhms_2056: "days2mdhms 2056 264.51782528 = Inr (9, 20, 12, 25, 40.104192)"
  by (simp add: days2mdhms_def math_Floor_def trunc_def)

lemma NewJDay_1957:
  "NewJDay 1957 9 21 12 25 40.104192 = \<lparr>Day = 2436102.5, Fraction = 0.51782528\<rparr>"
  by (simp add: NewJDay_def math_Floor_def)

lemma NewJDay_2056:
  "NewJDay 2056 9 20 12 25 40.104192 = \<lparr>Day = 2472261.5, Fraction = 0.51782528\<rparr>"
  by (simp add: NewJDay_def math_Floor_def)

text \<open>
  The epoch year is read from the two characters of columns 18 and 19, so the number
  that \<open>go_strconv\<close> reads there lies between -9 and 99, and adding the century to it
  stays far inside the range of \<open>int64\<close>.
\<close>

lemma digit_value_le: "is_digit c \<Longrightarrow> (of_char c :: nat) - 48 \<le> 9"
  unfolding is_digit_def by arith

lemma atoi_two_chars:
  assumes "length s = 2" and "snd (atoi s) = None"
  shows "- 9 \<le> fst (atoi s) \<and> fst (atoi s) \<le> 99"
proof -
  from assms(1) obtain a b where s: "s = [a, b]"
    by (cases s; cases "tl s") auto
  have d: "is_digit a \<Longrightarrow> is_digit b \<Longrightarrow> digits_value 0 [a, b] \<le> 99"
    using digit_value_le[of a] digit_value_le[of b] by simp
  have e: "is_digit b \<Longrightarrow> digits_value 0 [b] \<le> 9"
    using digit_value_le[of b] by simp
  from assms(2) d e show ?thesis
    unfolding s atoi_def strip_sign_def
    by (auto split: if_splits simp del: digits_value.simps)
qed

lemma epochyr_range:
  assumes "length line1 = 69"
    and "snd (parseInt go_strconv (slice line1 18 20)) = None"
  shows "- 9 \<le> fst (parseInt go_strconv (slice line1 18 20))
         \<and> fst (parseInt go_strconv (slice line1 18 20)) \<le> 99"
proof -
  from assms(1) have "length (slice line1 18 20) = 2"
    by (simp add: slice_def)
  from atoi_two_chars[OF this] assms(2) show ?thesis
    by (simp add: parseInt_def go_strconv_def)
qed

text \<open>
  Claim C8. When \<open>ParseTLE\<close> returns no error, \<open>NewSatFromTLE\<close> works with the year
  \<open>century_year y\<close> for the parsed epoch year \<open>y\<close>, that is \<open>y + 2000\<close> for \<open>y < 57\<close> and
  \<open>y + 1900\<close> otherwise: that year goes to \<open>days2mdhms\<close> and into the Julian date of the
  epoch, which is stored in the record and handed to the initializer. The year digits
  56 and 57 give 2056 and 1957.
\<close>

theorem NewSatFromTLE_year:
  "snd (ParseTLE lib line1 line2 gravconst) = None \<Longrightarrow>
   NewSatFromTLE sgp4init lib line1 line2 gravconst =
     (let sat = fst (ParseTLE lib line1 line2 gravconst);
          year = century_year (epochyr sat)
      in case days2mdhms year (epochdays sat) of
           Inl p \<Rightarrow> Inl p
         | Inr (mon, day, hr, minute, sec) \<Rightarrow>
             Inr (sgp4init ''i''
                    (Subtract (NewJDay year (trunc mon) (trunc day) (trunc hr) (trunc minute) sec)
                       2433281.5)
                    (sat\<lparr>no := no sat / XPDOTP,
                         ndot := ndot sat / (XPDOTP * 1440),
                         nddot := nddot sat / (XPDOTP * 1440 * 1440),
                         inclo := inclo sat * DEG2RAD,
                         nodeo := nodeo sat * DEG2RAD,
                         argpo := argpo sat * DEG2RAD,
                         mo := mo sat * DEG2RAD,
                         jdsatepoch := NewJDay year (trunc mon) (trunc day) (trunc hr)
                                         (trunc minute) sec\<rparr>),
                  None))
   \<and> century_year 56 = 2056 \<and> century_year 57 = 1957"
  unfolding NewSatFromTLE_def century_year_def
  by (simp add: Let_def case_prod_beta split: sum.splits)

theorem NewSatFromTLE_year_witness:
  "snd (ParseTLE go_strconv tle57_line1 tle_line2 ''wgs72'') = None
   \<and> epochyr (fst (ParseTLE go_strconv tle57_line1 tle_line2 ''wgs72'')) = 57
   \<and> (\<exists>sat. NewSatFromTLE (\<lambda>opsmode epoch sat. sat) go_strconv tle57_line1 tle_line2 ''wgs72''
               = Inr (sat, None)
            \<and> jdsatepoch sat = \<lparr>Day = 2436102.5, Fraction = 0.51782528\<rparr>)
   \<and> snd (ParseTLE go_strconv tle56_line1 tle_line2 ''wgs72'') = None
   \<and> epochyr (fst (ParseTLE go_strconv tle56_line1 tle_line2 ''wgs72'')) = 56
   \<and> (\<exists>sat. NewSatFromTLE (\<lambda>opsmode epoch sat. sat) go_strconv tle56_line1 tle_line2 ''wgs72''
               = Inr (sat, None)
            \<and> jdsatepoch sat = \<lparr>Day = 2472261.5, Fraction = 0.51782528\<rparr>)"
proof -
  let ?P = "ParseTLE go_strconv tle57_line1 tle_line2 ''wgs72''"
  let ?Q = "ParseTLE go_strconv tle56_line1 tle_line2 ''wgs72''"
  have p: "snd ?P = None"
    by (simp only: ParseTLE_tle57_line1 snd_conv)
  have y: "epochyr (fst ?P) = 57"
    by (simp only: ParseTLE_tle57_line1 fst_conv Satellite.select_convs)
  have d: "epochdays (fst ?P) = 264.51782528"
    by (simp only: ParseTLE_tle57_line1 fst_conv Satellite.select_convs)
  have q: "snd ?Q = None"
    by (simp only: ParseTLE_tle56_line1 snd_conv)
  have z: "epochyr (fst ?Q) = 56"
    by (simp only: ParseTLE_tle56_line1 fst_conv Satellite.select_convs)
  have e: "epochdays (fst ?Q) = 264.51782528"
    by (simp only: ParseTLE_tle56_line1 fst_conv Satellite.select_convs)
  note t = NewSatFromTLE_year[OF p, of "\<lambda>opsmode epoch sat. sat"]
  note u = NewSatFromTLE_year[OF q, of "\<lambda>opsmode epoch sat. sat"]
  have c: "century_year 57 = 1957" "century_year 56 = 2056"
    using t by (simp_all only:)
  have "\<exists>sat. NewSatFromTLE (\<lambda>opsmode epoch sat. sat) go_strconv tle57_line1 tle_line2 ''wgs72''
               = Inr (sat, None)
            \<and> jdsatepoch sat = NewJDay 1957 9 21 12 25 40.104192"
    using t[THEN conjunct1]
    by (simp only: Let_def y d c days2mdhms_1957 sum.case prod.case trunc_numerals
          Satellite.select_convs Satellite.update_convs Satellite.surjective) auto
  moreover
  have "\<exists>sat. NewSatFromTLE (\<lambda>opsmode epoch sat. sat) go_strconv tle56_line1 tle_line2 ''wgs72''
               = Inr (sat, None)
            \<and> jdsatepoch sat = NewJDay 2056 9 20 12 25 40.104192"
    using u[THEN conjunct1]
    by (simp only: Let_def z e c days2mdhms_2056 sum.case prod.case trunc_numerals
          Satellite.select_convs Satellite.update_convs Satellite.surjective) auto
  ultimately show ?thesis
    by (simp only: p y q z NewJDay_1957 NewJDay_2056 simp_thms)
qed

end
